theory Spec2Isabelle
  imports Complex_Main "HOL-Library.Multiset"
begin

section \<open>Data model (src/types.ts)\<close>

text \<open>
  A TypeScript \<^verbatim>\<open>number\<close> that holds a coordinate or a distance is modelled as a
  real: the rounding of IEEE doubles is abstracted, the comparisons and the arithmetic
  are otherwise those of the source. Statements that hold whatever the comparisons
  return, and evaluations at inputs that binary64 represents and computes exactly, carry
  over to the program; a statement that assumes an order between distances is made
  over the distances the program computes (\<open>optimizeRoute_on\<close> below). The optional
  fields of a stop are options.
\<close>

record Coordinate =
  lat :: real
  lng :: real

datatype TrafficCondition = Light | Moderate | Heavy

datatype Priority = Low | Medium | High

record DeliveryStop =
  stop_id :: string
  address :: string
  customerName :: string
  priority :: Priority
  coords :: Coordinate
  estimatedTime :: "string option"
  trafficCondition :: "TrafficCondition option"

section \<open>Geometry and sequencing (src/utils/optimizer.ts)\<close>

definition calculateDistance :: "Coordinate \<Rightarrow> Coordinate \<Rightarrow> real" where
  "calculateDistance p1 p2 =
     (let dy = lat p1 - lat p2;
          dx = lng p1 - lng p2
      in sqrt (dx * dx + dy * dy))"

text \<open>The conditional expression of line 25.\<close>

definition priorityWeight :: "Priority \<Rightarrow> real" where
  "priorityWeight p = (if p = High then 0.7 else if p = Medium then 0.9 else 1.0)"

text \<open>
  The inner \<^verbatim>\<open>for\<close> loop of lines 22 to 32, from index \<open>i\<close> on; it returns the
  final \<^verbatim>\<open>nearestIndex\<close> (the final \<^verbatim>\<open>minDistance\<close> is not read after the loop).
\<close>

function forLoop :: "Coordinate \<Rightarrow> DeliveryStop list \<Rightarrow> nat \<Rightarrow> nat \<Rightarrow> real \<Rightarrow> nat" where
  "forLoop currentPos unvisited i nearestIndex minDistance =
     (if i < length unvisited then
        (let dist = calculateDistance currentPos (coords (unvisited ! i));
             weightedDist = dist * priorityWeight (priority (unvisited ! i))
         in if weightedDist < minDistance
            then forLoop currentPos unvisited (i + 1) i weightedDist
            else forLoop currentPos unvisited (i + 1) nearestIndex minDistance)
      else nearestIndex)"
  by pat_completeness auto
termination
  by (relation "measure (\<lambda>(currentPos, unvisited, i, nearestIndex, minDistance). length unvisited - i)")
     auto

declare forLoop.simps [simp del]

text \<open>\<^verbatim>\<open>unvisited.splice(k, 1)\<close>: the array without the element at index \<open>k\<close>.\<close>

definition splice1 :: "nat \<Rightarrow> 'a list \<Rightarrow> 'a list" where
  "splice1 k xs = take k xs @ drop (Suc k) xs"

lemma forLoop_less:
  "nearestIndex < length unvisited \<Longrightarrow>
   forLoop currentPos unvisited i nearestIndex minDistance < length unvisited"
proof (induction currentPos unvisited i nearestIndex minDistance rule: forLoop.induct)
  case (1 currentPos unvisited i nearestIndex minDistance)
  show ?case
  proof (cases "i < length unvisited")
    case True
    with "1" show ?thesis
      by (subst forLoop.simps) (simp add: Let_def)
  next
    case False
    with "1.prems" show ?thesis
      by (subst forLoop.simps) simp
  qed
qed

lemma length_splice1: "k < length xs \<Longrightarrow> length (splice1 k xs) < length xs"
  by (simp add: splice1_def)

text \<open>
  The \<^verbatim>\<open>while\<close> loop of lines 18 to 37. The index the scan returns is always inside
  the pool (\<open>forLoop_less\<close>), so \<^verbatim>\<open>splice(nearestIndex, 1)[0]\<close> is the element at
  that index.
\<close>

function whileLoop :: "Coordinate \<Rightarrow> DeliveryStop list \<Rightarrow> DeliveryStop list \<Rightarrow> DeliveryStop list" where
  "whileLoop currentPos unvisited route =
     (if length unvisited > 0 then
        (let nearestIndex = forLoop currentPos unvisited 1 0
                              (calculateDistance currentPos (coords (unvisited ! 0)));
             nextStop = unvisited ! nearestIndex
         in whileLoop (coords nextStop) (splice1 nearestIndex unvisited) (route @ [nextStop]))
      else route)"
  by pat_completeness auto
termination
  by (relation "measure (\<lambda>(currentPos, unvisited, route). length unvisited)")
     (auto simp: forLoop_less length_splice1)

declare whileLoop.simps [simp del]

definition optimizeRoute :: "Coordinate \<Rightarrow> DeliveryStop list \<Rightarrow> DeliveryStop list" where
  "optimizeRoute start stops =
     (if length stops = 0 then [] else whileLoop start stops [])"

section \<open>The output is a permutation of the input\<close>

lemma mset_splice1: "k < length xs \<Longrightarrow> add_mset (xs ! k) (mset (splice1 k xs)) = mset xs"
proof -
  assume k: "k < length xs"
  have "mset xs = mset (take k xs @ xs ! k # drop (Suc k) xs)"
    using id_take_nth_drop [OF k] by simp
  then show ?thesis by (simp add: splice1_def)
qed

lemma mset_whileLoop:
  "mset (whileLoop currentPos unvisited route) = mset route + mset unvisited"
proof (induction currentPos unvisited route rule: whileLoop.induct)
  case (1 currentPos unvisited route)
  show ?case
  proof (cases "length unvisited > 0")
    case True
    define k where "k = forLoop currentPos unvisited 1 0
                          (calculateDistance currentPos (coords (unvisited ! 0)))"
    have k: "k < length unvisited"
      unfolding k_def using True by (rule forLoop_less)
    have "mset (whileLoop currentPos unvisited route)
          = mset (whileLoop (coords (unvisited ! k)) (splice1 k unvisited) (route @ [unvisited ! k]))"
      using True by (subst whileLoop.simps) (simp add: Let_def k_def)
    also have "\<dots> = mset (route @ [unvisited ! k]) + mset (splice1 k unvisited)"
      using "1" [OF True k_def refl] by simp
    also have "\<dots> = mset route + mset unvisited"
      using mset_splice1 [OF k] by simp
    finally show ?thesis .
  next
    case False
    then show ?thesis by (subst whileLoop.simps) simp
  qed
qed

text \<open>
  C2. For every origin and every input list, the output of \<open>optimizeRoute\<close> is a
  permutation of the input: the same multiset of stops, hence the same multiset of
  identities and the same length, nothing duplicated or dropped; the empty input gives
  the empty sequence.
\<close>

theorem optimizeRoute_permutation:
  "mset (optimizeRoute start stops) = mset stops
   \<and> mset (map stop_id (optimizeRoute start stops)) = mset (map stop_id stops)
   \<and> length (optimizeRoute start stops) = length stops
   \<and> optimizeRoute start [] = []"
proof -
  have m: "mset (optimizeRoute start stops) = mset stops"
    by (simp add: optimizeRoute_def mset_whileLoop)
  have i: "mset (map stop_id (optimizeRoute start stops)) = mset (map stop_id stops)"
    using m by (metis mset_map)
  have l: "length (optimizeRoute start stops) = length stops"
    using m by (metis size_mset)
  have e: "optimizeRoute start [] = []"
    by (simp add: optimizeRoute_def)
  from m i l e show ?thesis by simp
qed

section \<open>Concrete stops used in the evaluations below\<close>

definition mkStop :: "string \<Rightarrow> Priority \<Rightarrow> real \<Rightarrow> real \<Rightarrow> DeliveryStop" where
  "mkStop ident p y x =
     \<lparr>stop_id = ident, address = [], customerName = [], priority = p,
      coords = \<lparr>lat = y, lng = x\<rparr>, estimatedTime = None, trafficCondition = None\<rparr>"

definition origin :: Coordinate where
  "origin = \<lparr>lat = 0, lng = 0\<rparr>"

text \<open>The score the specification gives every stop of the pool (section 4.2, step 2).\<close>

definition weighted_distance_spec :: "Coordinate \<Rightarrow> DeliveryStop \<Rightarrow> real" where
  "weighted_distance_spec currentPos s =
     calculateDistance currentPos (coords s) * priorityWeight (priority s)"

lemma calculateDistance_same_lat:
  "lat p1 = lat p2 \<Longrightarrow> calculateDistance p1 p2 = \<bar>lng p1 - lng p2\<bar>"
  by (simp add: calculateDistance_def)

lemma priorityWeight_Low: "priorityWeight Low = 1"
  by (simp add: priorityWeight_def)

lemmas optimizeRoute_eval =
  optimizeRoute_def whileLoop.simps forLoop.simps Let_def splice1_def

section \<open>The first element of the pool is scored without its priority factor\<close>

text \<open>
  C1. The selection loop does not score the first element of the pool by its weighted
  distance: line 20 initialises \<^verbatim>\<open>minDistance\<close> with the plain distance of
  \<^verbatim>\<open>unvisited[0]\<close>, and only the elements from index 1 on are multiplied by their
  priority factor. From the origin, with the pool [A (high, distance 10), B (low,
  distance 8)], the weighted distance of A is 7 and that of B is 8, so the minimum
  weighted distance is A's; the code selects B first.
\<close>

theorem optimizeRoute_first_element_unweighted:
  "weighted_distance_spec origin (mkStop ''A'' High 0 10)
     < weighted_distance_spec origin (mkStop ''B'' Low 0 8)
   \<and> optimizeRoute origin [mkStop ''A'' High 0 10, mkStop ''B'' Low 0 8]
       = [mkStop ''B'' Low 0 8, mkStop ''A'' High 0 10]"
proof -
  have w: "weighted_distance_spec origin (mkStop ''A'' High 0 10)
             < weighted_distance_spec origin (mkStop ''B'' Low 0 8)"
    by (simp add: weighted_distance_spec_def calculateDistance_same_lat mkStop_def
        origin_def priorityWeight_def)
  have r: "optimizeRoute origin [mkStop ''A'' High 0 10, mkStop ''B'' Low 0 8]
             = [mkStop ''B'' Low 0 8, mkStop ''A'' High 0 10]"
    by (simp add: optimizeRoute_eval calculateDistance_same_lat mkStop_def origin_def
        priorityWeight_def)
  from w r show ?thesis by simp
qed

section \<open>Three stops of equal priority\<close>

lemma mset_three_cases:
  "mset xs = {#a, b, c#} \<Longrightarrow>
   xs = [a, b, c] \<or> xs = [a, c, b] \<or> xs = [b, a, c]
   \<or> xs = [b, c, a] \<or> xs = [c, a, b] \<or> xs = [c, b, a]"
proof -
  assume m: "mset xs = {#a, b, c#}"
  then have "length xs = 3"
    by (metis size_mset size_add_mset size_empty numeral_3_eq_3)
  then obtain x y z where xs: "xs = [x, y, z]"
    by (auto simp: length_Suc_conv numeral_3_eq_3)
  with m show ?thesis
    by (auto simp: add_eq_conv_ex)
qed

text \<open>
  C9, as stated, fails on the code. The loop is a nearest-neighbour walk: after the
  first pick the distances are measured from the stop just visited, not from the
  origin. With three low-priority stops on one line, at 1, -2 and 3 (distances 1, 2, 3
  from the origin), the walk goes from 1 to 3 (distance 2) before -2 (distance 3).
\<close>

theorem optimizeRoute_three_counterexample:
  "priority (mkStop ''A'' Low 0 1) = priority (mkStop ''B'' Low 0 (-2))
   \<and> priority (mkStop ''B'' Low 0 (-2)) = priority (mkStop ''C'' Low 0 3)
   \<and> calculateDistance origin (coords (mkStop ''A'' Low 0 1))
       < calculateDistance origin (coords (mkStop ''B'' Low 0 (-2)))
   \<and> calculateDistance origin (coords (mkStop ''B'' Low 0 (-2)))
       < calculateDistance origin (coords (mkStop ''C'' Low 0 3))
   \<and> optimizeRoute origin
         [mkStop ''A'' Low 0 1, mkStop ''B'' Low 0 (-2), mkStop ''C'' Low 0 3]
       = [mkStop ''A'' Low 0 1, mkStop ''C'' Low 0 3, mkStop ''B'' Low 0 (-2)]
   \<and> [mkStop ''A'' Low 0 1, mkStop ''C'' Low 0 3, mkStop ''B'' Low 0 (-2)]
       \<noteq> [mkStop ''A'' Low 0 1, mkStop ''B'' Low 0 (-2), mkStop ''C'' Low 0 3]"
proof -
  have d: "calculateDistance origin (coords (mkStop ''A'' Low 0 1))
             < calculateDistance origin (coords (mkStop ''B'' Low 0 (-2)))
           \<and> calculateDistance origin (coords (mkStop ''B'' Low 0 (-2)))
             < calculateDistance origin (coords (mkStop ''C'' Low 0 3))"
    by (simp add: calculateDistance_same_lat mkStop_def origin_def)
  have r: "optimizeRoute origin
              [mkStop ''A'' Low 0 1, mkStop ''B'' Low 0 (-2), mkStop ''C'' Low 0 3]
            = [mkStop ''A'' Low 0 1, mkStop ''C'' Low 0 3, mkStop ''B'' Low 0 (-2)]"
    by (simp add: optimizeRoute_eval calculateDistance_same_lat mkStop_def origin_def
        priorityWeight_def)
  have n: "[mkStop ''A'' Low 0 1, mkStop ''C'' Low 0 3, mkStop ''B'' Low 0 (-2)]
            \<noteq> [mkStop ''A'' Low 0 1, mkStop ''B'' Low 0 (-2), mkStop ''C'' Low 0 3]"
    by (simp add: mkStop_def)
  from d r n show ?thesis by (simp add: mkStop_def)
qed

subsection \<open>The sequencing loop over the distances the program computes\<close>

text \<open>
  The program computes in binary64: \<^verbatim>\<open>calculateDistance\<close> returns a rounded square
  root of a rounded sum, and the product with the priority factor is rounded again. An
  order between two exact distances need not be the order between the two computed
  ones, which may tie or fall the other way. Below, the computed distance and the
  computed product \<^verbatim>\<open>dist * priorityWeight\<close> are parameters of the loops of lines
  18 to 37, and the numbers are the values of any type with a strict order, the only
  thing the loop asks of them (line 28). The doubles under \<^verbatim>\<open><\<close> are such a type:
  the comparison is irreflexive and transitive, and \<^verbatim>\<open>NaN\<close> is comparable to nothing.
\<close>

function forLoop_on ::
  "(Coordinate \<Rightarrow> Coordinate \<Rightarrow> 'n::order) \<Rightarrow> ('n \<Rightarrow> Priority \<Rightarrow> 'n)
   \<Rightarrow> Coordinate \<Rightarrow> DeliveryStop list \<Rightarrow> nat \<Rightarrow> nat \<Rightarrow> 'n \<Rightarrow> nat" where
  "forLoop_on computedDistance computedProduct currentPos unvisited i nearestIndex minDistance =
     (if i < length unvisited then
        (let dist = computedDistance currentPos (coords (unvisited ! i));
             weightedDist = computedProduct dist (priority (unvisited ! i))
         in if weightedDist < minDistance
            then forLoop_on computedDistance computedProduct currentPos unvisited (i + 1) i
                   weightedDist
            else forLoop_on computedDistance computedProduct currentPos unvisited (i + 1)
                   nearestIndex minDistance)
      else nearestIndex)"
  by pat_completeness auto
termination
  by (relation "measure (\<lambda>(computedDistance, computedProduct, currentPos, unvisited, i,
                           nearestIndex, minDistance). length unvisited - i)")
     auto

declare forLoop_on.simps [simp del]

lemma forLoop_on_less:
  "nearestIndex < length unvisited \<Longrightarrow>
   forLoop_on computedDistance computedProduct currentPos unvisited i nearestIndex minDistance
     < length unvisited"
proof (induction computedDistance computedProduct currentPos unvisited i nearestIndex minDistance
       rule: forLoop_on.induct)
  case (1 computedDistance computedProduct currentPos unvisited i nearestIndex minDistance)
  show ?case
  proof (cases "i < length unvisited")
    case True
    with "1" show ?thesis
      by (subst forLoop_on.simps) (simp add: Let_def)
  next
    case False
    with "1.prems" show ?thesis
      by (subst forLoop_on.simps) simp
  qed
qed

function whileLoop_on ::
  "(Coordinate \<Rightarrow> Coordinate \<Rightarrow> 'n::order) \<Rightarrow> ('n \<Rightarrow> Priority \<Rightarrow> 'n)
   \<Rightarrow> Coordinate \<Rightarrow> DeliveryStop list \<Rightarrow> DeliveryStop list \<Rightarrow> DeliveryStop list" where
  "whileLoop_on computedDistance computedProduct currentPos unvisited route =
     (if length unvisited > 0 then
        (let nearestIndex = forLoop_on computedDistance computedProduct currentPos unvisited 1 0
                              (computedDistance currentPos (coords (unvisited ! 0)));
             nextStop = unvisited ! nearestIndex
         in whileLoop_on computedDistance computedProduct (coords nextStop)
              (splice1 nearestIndex unvisited) (route @ [nextStop]))
      else route)"
  by pat_completeness auto
termination
  by (relation "measure (\<lambda>(computedDistance, computedProduct, currentPos, unvisited, route).
                           length unvisited)")
     (auto simp: forLoop_on_less length_splice1)

declare whileLoop_on.simps [simp del]

definition optimizeRoute_on ::
  "(Coordinate \<Rightarrow> Coordinate \<Rightarrow> 'n::order) \<Rightarrow> ('n \<Rightarrow> Priority \<Rightarrow> 'n)
   \<Rightarrow> Coordinate \<Rightarrow> DeliveryStop list \<Rightarrow> DeliveryStop list" where
  "optimizeRoute_on computedDistance computedProduct start stops =
     (if length stops = 0 then []
      else whileLoop_on computedDistance computedProduct start stops [])"

text \<open>With the exact distance and the exact product the loops are those of \<open>optimizeRoute\<close>.\<close>

lemma forLoop_on_exact:
  "forLoop_on calculateDistance (\<lambda>x p. x * priorityWeight p) currentPos unvisited i nearestIndex
     minDistance
   = forLoop currentPos unvisited i nearestIndex minDistance"
proof (induction currentPos unvisited i nearestIndex minDistance rule: forLoop.induct)
  case (1 currentPos unvisited i nearestIndex minDistance)
  show ?case
  proof (cases "i < length unvisited")
    case True
    with "1" show ?thesis
      by (subst forLoop_on.simps, subst forLoop.simps) (simp add: Let_def)
  next
    case False
    then show ?thesis
      by (subst forLoop_on.simps, subst forLoop.simps) simp
  qed
qed

lemma whileLoop_on_exact:
  "whileLoop_on calculateDistance (\<lambda>x p. x * priorityWeight p) currentPos unvisited route
   = whileLoop currentPos unvisited route"
proof (induction currentPos unvisited route rule: whileLoop.induct)
  case (1 currentPos unvisited route)
  show ?case
  proof (cases "length unvisited > 0")
    case True
    with "1" show ?thesis
      by (subst whileLoop_on.simps, subst whileLoop.simps) (simp add: Let_def forLoop_on_exact)
  next
    case False
    then show ?thesis
      by (subst whileLoop_on.simps, subst whileLoop.simps) simp
  qed
qed

lemma optimizeRoute_on_exact:
  "optimizeRoute_on calculateDistance (\<lambda>x p. x * priorityWeight p) start xs
   = optimizeRoute start xs"
  by (simp add: optimizeRoute_on_def optimizeRoute_def whileLoop_on_exact)

lemmas optimizeRoute_on_eval =
  optimizeRoute_on_def whileLoop_on.simps forLoop_on.simps Let_def splice1_def

text \<open>
  C9, amended. For three stops of priority low, at strictly increasing computed
  distance from the origin (the distances as \<^verbatim>\<open>calculateDistance\<close> returns them in
  the program's arithmetic), and with the computed distance from the nearest stop to
  the middle stop strictly smaller than the one to the farthest stop, the output is the
  three stops in order of increasing distance from the origin, whatever their order in
  the input list. The first hypothesis is a fact of binary64 multiplication: the product
  of a distance with 1.0, the factor of priority low, is that distance.
\<close>

theorem optimizeRoute_on_three_low:
  fixes computedDistance :: "Coordinate \<Rightarrow> Coordinate \<Rightarrow> 'n::order"
  assumes w: "\<forall>x. computedProduct x Low = x"
    and p: "priority a = Low" "priority b = Low" "priority c = Low"
    and d1: "computedDistance start (coords a) < computedDistance start (coords b)"
    and d2: "computedDistance start (coords b) < computedDistance start (coords c)"
    and d3: "computedDistance (coords a) (coords b) < computedDistance (coords a) (coords c)"
    and m: "mset input = {#a, b, c#}"
  shows "optimizeRoute_on computedDistance computedProduct start input = [a, b, c]"
proof -
  have n: "\<not> computedDistance start (coords b) < computedDistance start (coords a)"
    "\<not> computedDistance start (coords c) < computedDistance start (coords b)"
    "\<not> computedDistance start (coords c) < computedDistance start (coords a)"
    "computedDistance start (coords a) < computedDistance start (coords c)"
    "\<not> computedDistance (coords a) (coords c) < computedDistance (coords a) (coords b)"
    using d1 d2 d3 by (auto dest: less_asym less_trans)
  have 1: "optimizeRoute_on computedDistance computedProduct start [a, b, c] = [a, b, c]"
    using w p d1 d2 d3 n by (simp add: optimizeRoute_on_eval)
  have 2: "optimizeRoute_on computedDistance computedProduct start [a, c, b] = [a, b, c]"
    using w p d1 d2 d3 n by (simp add: optimizeRoute_on_eval)
  have 3: "optimizeRoute_on computedDistance computedProduct start [b, a, c] = [a, b, c]"
    using w p d1 d2 d3 n by (simp add: optimizeRoute_on_eval)
  have 4: "optimizeRoute_on computedDistance computedProduct start [b, c, a] = [a, b, c]"
    using w p d1 d2 d3 n by (simp add: optimizeRoute_on_eval)
  have 5: "optimizeRoute_on computedDistance computedProduct start [c, a, b] = [a, b, c]"
    using w p d1 d2 d3 n by (simp add: optimizeRoute_on_eval)
  have 6: "optimizeRoute_on computedDistance computedProduct start [c, b, a] = [a, b, c]"
    using w p d1 d2 d3 n by (simp add: optimizeRoute_on_eval)
  from mset_three_cases [OF m] 1 2 3 4 5 6 show ?thesis by blast
qed

theorem optimizeRoute_on_three_low_witness:
  "(\<forall>x::real. x * priorityWeight Low = x)
   \<and> priority (mkStop ''A'' Low 0 1) = Low
   \<and> priority (mkStop ''B'' Low 0 2) = Low
   \<and> priority (mkStop ''C'' Low 0 3) = Low
   \<and> calculateDistance origin (coords (mkStop ''A'' Low 0 1))
       < calculateDistance origin (coords (mkStop ''B'' Low 0 2))
   \<and> calculateDistance origin (coords (mkStop ''B'' Low 0 2))
       < calculateDistance origin (coords (mkStop ''C'' Low 0 3))
   \<and> calculateDistance (coords (mkStop ''A'' Low 0 1)) (coords (mkStop ''B'' Low 0 2))
       < calculateDistance (coords (mkStop ''A'' Low 0 1)) (coords (mkStop ''C'' Low 0 3))
   \<and> mset [mkStop ''C'' Low 0 3, mkStop ''A'' Low 0 1, mkStop ''B'' Low 0 2]
       = {#mkStop ''A'' Low 0 1, mkStop ''B'' Low 0 2, mkStop ''C'' Low 0 3#}
   \<and> optimizeRoute_on calculateDistance (\<lambda>x p. x * priorityWeight p) origin
         [mkStop ''C'' Low 0 3, mkStop ''A'' Low 0 1, mkStop ''B'' Low 0 2]
       = [mkStop ''A'' Low 0 1, mkStop ''B'' Low 0 2, mkStop ''C'' Low 0 3]
   \<and> optimizeRoute origin [mkStop ''C'' Low 0 3, mkStop ''A'' Low 0 1, mkStop ''B'' Low 0 2]
       = [mkStop ''A'' Low 0 1, mkStop ''B'' Low 0 2, mkStop ''C'' Low 0 3]"
proof -
  have w: "\<forall>x::real. x * priorityWeight Low = x"
    by (simp add: priorityWeight_Low)
  have p: "priority (mkStop ''A'' Low 0 1) = Low" "priority (mkStop ''B'' Low 0 2) = Low"
    "priority (mkStop ''C'' Low 0 3) = Low"
    by (simp_all add: mkStop_def)
  have d1: "calculateDistance origin (coords (mkStop ''A'' Low 0 1))
              < calculateDistance origin (coords (mkStop ''B'' Low 0 2))"
    by (simp add: calculateDistance_same_lat mkStop_def origin_def)
  have d2: "calculateDistance origin (coords (mkStop ''B'' Low 0 2))
              < calculateDistance origin (coords (mkStop ''C'' Low 0 3))"
    by (simp add: calculateDistance_same_lat mkStop_def origin_def)
  have d3: "calculateDistance (coords (mkStop ''A'' Low 0 1)) (coords (mkStop ''B'' Low 0 2))
              < calculateDistance (coords (mkStop ''A'' Low 0 1)) (coords (mkStop ''C'' Low 0 3))"
    by (simp add: calculateDistance_same_lat mkStop_def)
  have m: "mset [mkStop ''C'' Low 0 3, mkStop ''A'' Low 0 1, mkStop ''B'' Low 0 2]
             = {#mkStop ''A'' Low 0 1, mkStop ''B'' Low 0 2, mkStop ''C'' Low 0 3#}"
    by simp
  have r: "optimizeRoute_on calculateDistance (\<lambda>x p. x * priorityWeight p) origin
             [mkStop ''C'' Low 0 3, mkStop ''A'' Low 0 1, mkStop ''B'' Low 0 2]
           = [mkStop ''A'' Low 0 1, mkStop ''B'' Low 0 2, mkStop ''C'' Low 0 3]"
    using optimizeRoute_on_three_low
            [where computedDistance = calculateDistance
               and computedProduct = "\<lambda>x p. x * priorityWeight p",
             OF _ p d1 d2 d3 m] w
    by simp
  have e: "optimizeRoute origin [mkStop ''C'' Low 0 3, mkStop ''A'' Low 0 1, mkStop ''B'' Low 0 2]
           = [mkStop ''A'' Low 0 1, mkStop ''B'' Low 0 2, mkStop ''C'' Low 0 3]"
    using r by (simp add: optimizeRoute_on_exact)
  from w p d1 d2 d3 m r e show ?thesis by blast
qed

section \<open>Annotation merge (the application component, lines 173 to 177)\<close>

text \<open>
  The estimator resolves to a summary and a list of per-stop insights. The field
  \<^verbatim>\<open>id\<close> of an insight is \<open>eta_id\<close> here.
\<close>

record EtaInsight =
  eta_id :: string
  eta :: string
  traffic :: TrafficCondition

record AnalysisResult =
  summary :: string
  etas :: "EtaInsight list"

text \<open>
  \<^verbatim>\<open>orderedStops.map(stop => { const insight = result.etas.find(e => e.id === stop.id);
  return { ...stop, estimatedTime: insight?.eta, trafficCondition: insight?.traffic }; })\<close>.
  When \<^verbatim>\<open>find\<close> returns \<^verbatim>\<open>undefined\<close>, both optional chains are
  \<^verbatim>\<open>undefined\<close> and the two fields are written with it.
\<close>

definition stopsWithInsights :: "DeliveryStop list \<Rightarrow> AnalysisResult \<Rightarrow> DeliveryStop list" where
  "stopsWithInsights orderedStops result =
     map (\<lambda>stop.
            let insight = find (\<lambda>e. eta_id e = stop_id stop) (etas result)
            in stop\<lparr>estimatedTime := map_option eta insight,
                    trafficCondition := map_option traffic insight\<rparr>)
         orderedStops"

definition stopA_annotated :: DeliveryStop where
  "stopA_annotated =
     (mkStop ''A'' Low 0 1)\<lparr>estimatedTime := Some ''09:45 AM'', trafficCondition := Some Light\<rparr>"

definition analysisB :: AnalysisResult where
  "analysisB = \<lparr>summary = ''Route B'',
                 etas = [\<lparr>eta_id = ''B'', eta = ''10:15 AM'', traffic = Heavy\<rparr>]\<rparr>"

text \<open>
  C6. The merge keeps the length, the order and the identities of the sequence, and
  each output stop differs from the input stop at the same position in nothing but
  the two annotation fields: with those two fields blanked, output and input are the
  same list.
\<close>

theorem stopsWithInsights_preserves:
  "length (stopsWithInsights xs r) = length xs
   \<and> map stop_id (stopsWithInsights xs r) = map stop_id xs
   \<and> map (\<lambda>s. s\<lparr>estimatedTime := None, trafficCondition := None\<rparr>) (stopsWithInsights xs r)
       = map (\<lambda>s. s\<lparr>estimatedTime := None, trafficCondition := None\<rparr>) xs"
  by (simp add: stopsWithInsights_def Let_def)

text \<open>
  C5, as stated, fails on the code: a stop whose identity is not in the annotation
  list does not keep its earlier values. Stop A carries the estimated time 09:45 AM and
  light traffic; the annotation list only names B; after the merge both fields of A are
  absent.
\<close>

theorem stopsWithInsights_absent_counterexample:
  "stop_id stopA_annotated \<notin> set (map eta_id (etas analysisB))
   \<and> estimatedTime stopA_annotated = Some ''09:45 AM''
   \<and> trafficCondition stopA_annotated = Some Light
   \<and> estimatedTime (stopsWithInsights [stopA_annotated] analysisB ! 0) = None
   \<and> trafficCondition (stopsWithInsights [stopA_annotated] analysisB ! 0) = None
   \<and> estimatedTime (stopsWithInsights [stopA_annotated] analysisB ! 0)
       \<noteq> estimatedTime ([stopA_annotated] ! 0)"
  by (simp add: stopsWithInsights_def stopA_annotated_def analysisB_def mkStop_def)

text \<open>
  C5, amended. For every stop of the sequence whose identity does not occur in the
  annotation list, the merge sets the estimated time and the traffic condition to
  absent, whatever they were before; a stop whose identity is found gets the values of
  the first annotation with that identity.
\<close>

theorem stopsWithInsights_fields:
  assumes "i < length xs"
  shows "(stop_id (xs ! i) \<notin> set (map eta_id (etas r)) \<longrightarrow>
            estimatedTime (stopsWithInsights xs r ! i) = None
            \<and> trafficCondition (stopsWithInsights xs r ! i) = None)
         \<and> (\<forall>e. find (\<lambda>e. eta_id e = stop_id (xs ! i)) (etas r) = Some e \<longrightarrow>
               estimatedTime (stopsWithInsights xs r ! i) = Some (eta e)
               \<and> trafficCondition (stopsWithInsights xs r ! i) = Some (traffic e))"
  using assms
  by (auto simp add: stopsWithInsights_def Let_def find_None_iff intro: rev_image_eqI)

theorem stopsWithInsights_fields_witness:
  "0 < length [stopA_annotated, mkStop ''B'' High 0 2]
   \<and> 1 < length [stopA_annotated, mkStop ''B'' High 0 2]
   \<and> stop_id ([stopA_annotated, mkStop ''B'' High 0 2] ! 0) \<notin> set (map eta_id (etas analysisB))
   \<and> find (\<lambda>e. eta_id e = stop_id ([stopA_annotated, mkStop ''B'' High 0 2] ! 1)) (etas analysisB)
       = Some \<lparr>eta_id = ''B'', eta = ''10:15 AM'', traffic = Heavy\<rparr>
   \<and> estimatedTime (stopsWithInsights [stopA_annotated, mkStop ''B'' High 0 2] analysisB ! 0) = None
   \<and> trafficCondition (stopsWithInsights [stopA_annotated, mkStop ''B'' High 0 2] analysisB ! 0) = None
   \<and> estimatedTime (stopsWithInsights [stopA_annotated, mkStop ''B'' High 0 2] analysisB ! 1)
       = Some ''10:15 AM''
   \<and> trafficCondition (stopsWithInsights [stopA_annotated, mkStop ''B'' High 0 2] analysisB ! 1)
       = Some Heavy"
proof -
  have l0: "0 < length [stopA_annotated, mkStop ''B'' High 0 2]" by simp
  have l1: "1 < length [stopA_annotated, mkStop ''B'' High 0 2]" by simp
  have a: "stop_id ([stopA_annotated, mkStop ''B'' High 0 2] ! 0)
             \<notin> set (map eta_id (etas analysisB))"
    by (simp add: stopA_annotated_def analysisB_def mkStop_def)
  have f: "find (\<lambda>e. eta_id e = stop_id ([stopA_annotated, mkStop ''B'' High 0 2] ! 1))
             (etas analysisB) = Some \<lparr>eta_id = ''B'', eta = ''10:15 AM'', traffic = Heavy\<rparr>"
    by (simp add: analysisB_def mkStop_def)
  from stopsWithInsights_fields [OF l0, of analysisB] a
  have r0: "estimatedTime (stopsWithInsights [stopA_annotated, mkStop ''B'' High 0 2] analysisB ! 0) = None
            \<and> trafficCondition (stopsWithInsights [stopA_annotated, mkStop ''B'' High 0 2] analysisB ! 0) = None"
    by blast
  from stopsWithInsights_fields [OF l1, of analysisB] f
  have r1: "estimatedTime (stopsWithInsights [stopA_annotated, mkStop ''B'' High 0 2] analysisB ! 1)
              = Some ''10:15 AM''
            \<and> trafficCondition (stopsWithInsights [stopA_annotated, mkStop ''B'' High 0 2] analysisB ! 1)
              = Some Heavy"
    by fastforce
  from l0 l1 a f r0 r1 show ?thesis by blast
qed

section \<open>Recompute (the application component, lines 164 to 186)\<close>

text \<open>
  The state of the component that \<^verbatim>\<open>runOptimization\<close> reads and writes. A
  \<^verbatim>\<open>Date\<close> is the clock reading its two accessors return.
\<close>

record Date =
  getHours :: nat
  getMinutes :: nat

datatype Language = en | es | de

record AppState =
  stops :: "DeliveryStop list"
  aiSummary :: "string option"
  lastUpdated :: "Date option"
  isOptimizing :: bool
  selectedStopId :: "string option"
  depotLocation :: Coordinate
  useSystemTime :: bool
  lang :: Language

definition DEFAULT_DEPOT_START_TIME :: string where
  "DEFAULT_DEPOT_START_TIME = ''09:00 AM''"

definition digits10 :: string where
  "digits10 = ''0123456789''"

text \<open>The decimal digits of a natural number (\<^verbatim>\<open>toString\<close> on a non-negative integer).\<close>

function toString_nat :: "nat \<Rightarrow> string" where
  "toString_nat n =
     (if n < 10 then [digits10 ! n] else toString_nat (n div 10) @ [digits10 ! (n mod 10)])"
  by pat_completeness auto
termination
  by (relation "measure (\<lambda>n. n)") auto

declare toString_nat.simps [simp del]

definition padStart :: "nat \<Rightarrow> char \<Rightarrow> string \<Rightarrow> string" where
  "padStart n c s = replicate (n - length s) c @ s"

text \<open>Lines 50 to 58; the clock reading \<^verbatim>\<open>new Date()\<close> is the argument.\<close>

definition getCurrentTimeFormatted :: "Date \<Rightarrow> string" where
  "getCurrentTimeFormatted now =
     (let hours = getHours now;
          minutes = padStart 2 (CHR ''0'') (toString_nat (getMinutes now));
          ampm = (if hours \<ge> 12 then ''PM'' else ''AM'');
          hours = hours mod 12;
          hours = (if hours \<noteq> 0 then hours else 12)
      in toString_nat hours @ '':'' @ minutes @ '' '' @ ampm)"

text \<open>
  \<^verbatim>\<open>runOptimization\<close> is asynchronous with one suspension point, the
  \<^verbatim>\<open>await analyzeRoute(...)\<close> of line 173. It is modelled in two steps: the part
  that runs up to the \<^verbatim>\<open>await\<close>, which leaves the locals the continuation needs,
  and the continuation, which runs when the estimator's promise settles. The estimator is
  an external service; how its promise settles is an input of the model.
\<close>

datatype 'a settled = Rejected | Resolved 'a

record Invocation =
  orderedStops :: "DeliveryStop list"
  startTime :: string

text \<open>
  Lines 165 to 171. An array and a coordinate object are truthy, so
  \<^verbatim>\<open>manualStops || stops\<close> and \<^verbatim>\<open>manualStops ? ... : ...\<close> test whether
  the argument was passed.
\<close>

definition runOptimization_begin ::
  "AppState \<Rightarrow> Date \<Rightarrow> DeliveryStop list option \<Rightarrow> Coordinate option
   \<Rightarrow> AppState \<times> Invocation option" where
  "runOptimization_begin s now manualStops manualDepot =
     (let targetStops = (case manualStops of Some m \<Rightarrow> m | None \<Rightarrow> stops s);
          targetDepot = (case manualDepot of Some d \<Rightarrow> d | None \<Rightarrow> depotLocation s)
      in if length targetStops = 0 then (s, None)
         else
           (let s1 = s\<lparr>isOptimizing := True\<rparr>;
                s2 = (if manualStops = None then s1\<lparr>selectedStopId := None\<rparr> else s1);
                ordered = (case manualStops of Some m \<Rightarrow> m
                           | None \<Rightarrow> optimizeRoute targetDepot targetStops);
                start = (if useSystemTime s then getCurrentTimeFormatted now
                         else DEFAULT_DEPOT_START_TIME)
            in (s2, Some \<lparr>orderedStops = ordered, startTime = start\<rparr>)))"

text \<open>
  Lines 174 to 185: the \<^verbatim>\<open>try\<close> body after the \<^verbatim>\<open>await\<close> when the promise
  resolved, the \<^verbatim>\<open>catch\<close> body when it rejected, then \<^verbatim>\<open>finally\<close>.
\<close>

definition runOptimization_resume ::
  "AppState \<Rightarrow> Date \<Rightarrow> Invocation \<Rightarrow> AnalysisResult settled \<Rightarrow> AppState" where
  "runOptimization_resume s now pending outcome =
     (let s1 = (case outcome of
                  Resolved result \<Rightarrow>
                    s\<lparr>stops := stopsWithInsights (orderedStops pending) result,
                      aiSummary := Some (summary result),
                      lastUpdated := Some now\<rparr>
                | Rejected \<Rightarrow> s\<lparr>stops := orderedStops pending\<rparr>)
      in s1\<lparr>isOptimizing := False\<rparr>)"

text \<open>One invocation with nothing interleaved.\<close>

definition runOptimization ::
  "AppState \<Rightarrow> Date \<Rightarrow> DeliveryStop list option \<Rightarrow> Coordinate option
   \<Rightarrow> Date \<Rightarrow> AnalysisResult settled \<Rightarrow> AppState" where
  "runOptimization s now manualStops manualDepot now' outcome =
     (case runOptimization_begin s now manualStops manualDepot of
        (s1, None) \<Rightarrow> s1
      | (s1, Some pending) \<Rightarrow> runOptimization_resume s1 now' pending outcome)"

text \<open>
  Two overlapping invocations: A starts, B starts while A is suspended, B's promise
  settles and B's continuation runs, then A's promise settles and A's continuation runs.
  A call is the arguments of the invocation, the clock at its start and at its
  settlement, and the way its promise settles.
\<close>

record Call =
  manualStops :: "DeliveryStop list option"
  manualDepot :: "Coordinate option"
  startedAt :: Date
  settledAt :: Date
  outcome :: "AnalysisResult settled"

definition overlapped_until_B :: "AppState \<Rightarrow> Call \<Rightarrow> Call \<Rightarrow> AppState" where
  "overlapped_until_B s A B =
     (case runOptimization_begin s (startedAt A) (manualStops A) (manualDepot A) of
        (s1, pendingA) \<Rightarrow>
          (case runOptimization_begin s1 (startedAt B) (manualStops B) (manualDepot B) of
             (s2, None) \<Rightarrow> s2
           | (s2, Some pendingB) \<Rightarrow> runOptimization_resume s2 (settledAt B) pendingB (outcome B)))"

definition overlapped :: "AppState \<Rightarrow> Call \<Rightarrow> Call \<Rightarrow> AppState" where
  "overlapped s A B =
     (case runOptimization_begin s (startedAt A) (manualStops A) (manualDepot A) of
        (s1, None) \<Rightarrow> overlapped_until_B s A B
      | (s1, Some pendingA) \<Rightarrow>
          runOptimization_resume (overlapped_until_B s A B) (settledAt A) pendingA (outcome A))"

definition nine :: Date where
  "nine = \<lparr>getHours = 9, getMinutes = 0\<rparr>"

definition state_prior :: AppState where
  "state_prior =
     \<lparr>stops = [stopA_annotated], aiSummary = Some ''Earlier summary'',
      lastUpdated = Some nine, isOptimizing = False, selectedStopId = None,
      depotLocation = origin, useSystemTime = False, lang = en\<rparr>"

definition state0 :: AppState where
  "state0 = \<lparr>stops = [], aiSummary = None, lastUpdated = None, isOptimizing = False,
             selectedStopId = None, depotLocation = origin, useSystemTime = False, lang = en\<rparr>"

definition callA :: Call where
  "callA = \<lparr>manualStops = Some [mkStop ''A'' Low 0 1], manualDepot = None,
            startedAt = nine, settledAt = nine,
            outcome = Resolved \<lparr>summary = ''Route A'',
                        etas = [\<lparr>eta_id = ''A'', eta = ''09:30 AM'', traffic = Light\<rparr>]\<rparr>\<rparr>"

definition callB :: Call where
  "callB = \<lparr>manualStops = Some [mkStop ''A'' Low 0 1, mkStop ''B'' High 0 2],
            manualDepot = None, startedAt = nine, settledAt = nine,
            outcome = Resolved analysisB\<rparr>"

lemmas runOptimization_eval =
  runOptimization_def runOptimization_begin_def runOptimization_resume_def Let_def

subsection \<open>The estimator call fails\<close>

text \<open>
  C3, as stated, fails on the code. The \<^verbatim>\<open>catch\<close> branch (line 182) only stores the
  ordered list: it does not touch the summary and it does not strip the annotation
  fields the stops already carry. From a state with a summary and one stop annotated by
  an earlier round, a recompute whose estimator call is rejected leaves the summary in
  place and the stop with its earlier estimated time.
\<close>

theorem runOptimization_rejected_counterexample:
  "aiSummary (runOptimization state_prior nine None None nine Rejected) = Some ''Earlier summary''
   \<and> aiSummary (runOptimization state_prior nine None None nine Rejected) \<noteq> None
   \<and> map estimatedTime (stops (runOptimization state_prior nine None None nine Rejected))
       = [Some ''09:45 AM'']"
  by (simp add: runOptimization_eval state_prior_def optimizeRoute_eval stopA_annotated_def
      mkStop_def)

text \<open>
  C3, amended. For every recompute invocation on a non-empty stop list in which the
  estimator call fails, the visible stop list becomes the sequenced list (the list the
  caller passed, or else the output of \<open>optimizeRoute\<close>), every stop exactly as it
  was sequenced, with no annotation attached by this invocation and the annotation
  fields it already had kept; the summary and the time of the last update are left as
  they were, and the in-progress flag is reset.
\<close>

theorem runOptimization_rejected:
  assumes "(case ms of Some m \<Rightarrow> m | None \<Rightarrow> stops s) \<noteq> []"
  shows "stops (runOptimization s now ms md now' Rejected)
           = (case ms of Some m \<Rightarrow> m
              | None \<Rightarrow> optimizeRoute (case md of Some d \<Rightarrow> d | None \<Rightarrow> depotLocation s)
                          (stops s))
         \<and> aiSummary (runOptimization s now ms md now' Rejected) = aiSummary s
         \<and> lastUpdated (runOptimization s now ms md now' Rejected) = lastUpdated s
         \<and> isOptimizing (runOptimization s now ms md now' Rejected) = False"
  using assms
  by (cases ms) (simp_all add: runOptimization_eval)

theorem runOptimization_rejected_witness:
  "(case None of Some m \<Rightarrow> m | None \<Rightarrow> stops state_prior) \<noteq> []
   \<and> stops (runOptimization state_prior nine None None nine Rejected) = [stopA_annotated]
   \<and> aiSummary (runOptimization state_prior nine None None nine Rejected)
       = Some ''Earlier summary''"
proof -
  have h: "(case None of Some m \<Rightarrow> m | None \<Rightarrow> stops state_prior) \<noteq> []"
    by (simp add: state_prior_def)
  have o: "optimizeRoute origin [stopA_annotated] = [stopA_annotated]"
    by (simp add: optimizeRoute_eval)
  from runOptimization_rejected [OF h, of nine None nine] h o show ?thesis
    by (simp add: state_prior_def)
qed

subsection \<open>Overlapping invocations\<close>

text \<open>
  C4, as stated, fails on the code. No invocation carries a generation token and the
  continuation writes its result without any test. Invocation A is called with [A],
  invocation B with [A, B]; B settles first and the state shows B's two stops and B's
  summary; when A settles, the state shows A's single stop and A's summary.
\<close>

theorem overlapped_counterexample:
  "map stop_id (stops (overlapped_until_B state0 callA callB)) = [''A'', ''B'']
   \<and> aiSummary (overlapped_until_B state0 callA callB) = Some ''Route B''
   \<and> map stop_id (stops (overlapped state0 callA callB)) = [''A'']
   \<and> aiSummary (overlapped state0 callA callB) = Some ''Route A''
   \<and> stops (overlapped state0 callA callB) \<noteq> stops (overlapped_until_B state0 callA callB)
   \<and> aiSummary (overlapped state0 callA callB)
       \<noteq> aiSummary (overlapped_until_B state0 callA callB)"
  by (simp add: runOptimization_eval overlapped_def overlapped_until_B_def
      stopsWithInsights_def callA_def callB_def state0_def analysisB_def mkStop_def)

text \<open>
  C4, amended. For every pair of overlapping invocations A then B where A's estimator
  call settles after B completed, the result of A is not discarded: the final visible
  stop list is the one A produces (A's sequence merged with A's annotations when A's
  call succeeded, A's sequence when it failed), and the final summary is A's when A's
  call succeeded and the one B left when it failed.
\<close>

theorem overlapped_last_settled_wins:
  assumes "runOptimization_begin s (startedAt A) (manualStops A) (manualDepot A)
             = (s1, Some pendingA)"
  shows "stops (overlapped s A B)
           = (case outcome A of
                Resolved r \<Rightarrow> stopsWithInsights (orderedStops pendingA) r
              | Rejected \<Rightarrow> orderedStops pendingA)
         \<and> aiSummary (overlapped s A B)
           = (case outcome A of
                Resolved r \<Rightarrow> Some (summary r)
              | Rejected \<Rightarrow> aiSummary (overlapped_until_B s A B))"
  using assms
  by (cases "outcome A") (simp_all add: overlapped_def runOptimization_resume_def Let_def)

theorem overlapped_last_settled_wins_witness:
  "runOptimization_begin state0 (startedAt callA) (manualStops callA) (manualDepot callA)
     = (state0\<lparr>isOptimizing := True\<rparr>,
        Some \<lparr>orderedStops = [mkStop ''A'' Low 0 1], startTime = ''09:00 AM''\<rparr>)
   \<and> stops (overlapped state0 callA callB)
       = [(mkStop ''A'' Low 0 1)\<lparr>estimatedTime := Some ''09:30 AM'',
                                 trafficCondition := Some Light\<rparr>]
   \<and> aiSummary (overlapped state0 callA callB) = Some ''Route A''"
proof -
  have h: "runOptimization_begin state0 (startedAt callA) (manualStops callA) (manualDepot callA)
             = (state0\<lparr>isOptimizing := True\<rparr>,
                Some \<lparr>orderedStops = [mkStop ''A'' Low 0 1], startTime = ''09:00 AM''\<rparr>)"
    by (simp add: runOptimization_begin_def Let_def callA_def state0_def
        DEFAULT_DEPOT_START_TIME_def)
  from overlapped_last_settled_wins [OF h, of callB] h show ?thesis
    by (simp add: callA_def stopsWithInsights_def mkStop_def)
qed

section \<open>Route statistics (the application component, lines 132 to 162)\<close>

text \<open>
  The numbers of the clock arithmetic are the integers and \<^verbatim>\<open>NaN\<close>: that is
  what \<^verbatim>\<open>Number\<close> yields on the pieces of a clock string, and \<^verbatim>\<open>NaN\<close> is
  what the arithmetic propagates. Any operation with a \<^verbatim>\<open>NaN\<close> operand is
  \<^verbatim>\<open>NaN\<close>, any comparison with it is false.
\<close>

datatype jsnum = NaN | Fin int

definition js_add :: "jsnum \<Rightarrow> jsnum \<Rightarrow> jsnum" where
  "js_add a b = (case (a, b) of (Fin x, Fin y) \<Rightarrow> Fin (x + y) | _ \<Rightarrow> NaN)"

definition js_sub :: "jsnum \<Rightarrow> jsnum \<Rightarrow> jsnum" where
  "js_sub a b = (case (a, b) of (Fin x, Fin y) \<Rightarrow> Fin (x - y) | _ \<Rightarrow> NaN)"

definition js_mul :: "jsnum \<Rightarrow> jsnum \<Rightarrow> jsnum" where
  "js_mul a b = (case (a, b) of (Fin x, Fin y) \<Rightarrow> Fin (x * y) | _ \<Rightarrow> NaN)"

definition js_lt :: "jsnum \<Rightarrow> jsnum \<Rightarrow> bool" where
  "js_lt a b = (case (a, b) of (Fin x, Fin y) \<Rightarrow> x < y | _ \<Rightarrow> False)"

definition js_strict_eq :: "jsnum \<Rightarrow> jsnum \<Rightarrow> bool" where
  "js_strict_eq a b = (case (a, b) of (Fin x, Fin y) \<Rightarrow> x = y | _ \<Rightarrow> False)"

text \<open>\<^verbatim>\<open>Math.floor(diff / 60)\<close>; integer division in HOL rounds down.\<close>

definition js_floor_div60 :: "jsnum \<Rightarrow> jsnum" where
  "js_floor_div60 a = (case a of Fin x \<Rightarrow> Fin (x div 60) | NaN \<Rightarrow> NaN)"

text \<open>\<^verbatim>\<open>diff % 60\<close>; the remainder of JavaScript has the sign of the dividend.\<close>

definition js_rem60 :: "jsnum \<Rightarrow> jsnum" where
  "js_rem60 a = (case a of Fin x \<Rightarrow> Fin (sgn x * (\<bar>x\<bar> mod 60)) | NaN \<Rightarrow> NaN)"

text \<open>The text a template literal inserts for a number.\<close>

definition toString_js :: "jsnum \<Rightarrow> string" where
  "toString_js a =
     (case a of NaN \<Rightarrow> ''NaN''
      | Fin x \<Rightarrow> (if x < 0 then ''-'' @ toString_nat (nat (- x)) else toString_nat (nat x)))"

text \<open>
  \<^verbatim>\<open>s.split(sep)\<close> for a separator of one character: the pieces between the
  separators, at least one piece.
\<close>

fun split_js :: "char \<Rightarrow> string \<Rightarrow> string list" where
  "split_js sep [] = [[]]"
| "split_js sep (c # cs) =
     (if c = sep then [] # split_js sep cs
      else (case split_js sep cs of [] \<Rightarrow> [[c]] | p # ps \<Rightarrow> (c # p) # ps))"

definition is_space :: "char \<Rightarrow> bool" where
  "is_space c = (c \<in> set [CHR '' '', CHR 0x09, CHR 0x0A, CHR 0x0B, CHR 0x0C, CHR 0x0D])"

definition trim_js :: "string \<Rightarrow> string" where
  "trim_js s = rev (dropWhile is_space (rev (dropWhile is_space s)))"

definition is_digit :: "char \<Rightarrow> bool" where
  "is_digit c = (c \<in> set digits10)"

fun digits_value :: "nat \<Rightarrow> string \<Rightarrow> nat" where
  "digits_value acc [] = acc"
| "digits_value acc (c # cs) = digits_value (acc * 10 + (of_char c - 48)) cs"

text \<open>
  \<^verbatim>\<open>Number(s)\<close> on a string: white space around the text is dropped, the empty
  text is 0, an optionally signed run of decimal digits is its value, and a text that is
  no numeric literal is \<^verbatim>\<open>NaN\<close>. JavaScript reads further literals as numbers
  (a fraction, an exponent, a radix prefix, \<^verbatim>\<open>Infinity\<close>); they do not occur in
  a clock string and are outside this model, which is only evaluated on digit runs and
  on texts that are no numeric literal at all.
\<close>

definition Number_js :: "string \<Rightarrow> jsnum" where
  "Number_js s =
     (let t = trim_js s
      in if t = [] then Fin 0
         else
           (let (neg, ds) = (case t of c # r \<Rightarrow>
                                if c = CHR ''-'' then (True, r)
                                else if c = CHR ''+'' then (False, r)
                                else (False, t));
                v = int (digits_value 0 ds)
            in if ds \<noteq> [] \<and> list_all is_digit ds
               then Fin (if neg then - v else v) else NaN))"

text \<open>
  Lines 143 to 149. A missing second piece is \<^verbatim>\<open>undefined\<close>: as modifier it
  equals neither \<^verbatim>\<open>'PM'\<close> nor \<^verbatim>\<open>'AM'\<close>, as minutes it makes the sum
  \<^verbatim>\<open>NaN\<close>. Nothing in the function throws on a string.
\<close>

definition parseTime :: "string \<Rightarrow> jsnum" where
  "parseTime timeStr =
     (let parts = split_js (CHR '' '') timeStr;
          time = parts ! 0;
          modifier = (if 1 < length parts then Some (parts ! 1) else None);
          nums = map Number_js (split_js (CHR '':'') time);
          hours = nums ! 0;
          minutes = (if 1 < length nums then nums ! 1 else NaN);
          hours = (if modifier = Some ''PM'' \<and> js_lt hours (Fin 12)
                   then js_add hours (Fin 12) else hours);
          hours = (if modifier = Some ''AM'' \<and> js_strict_eq hours (Fin 12)
                   then Fin 0 else hours)
      in js_add (js_mul hours (Fin 60)) minutes)"

record RouteStats =
  distance :: real
  duration :: string

text \<open>The \<^verbatim>\<open>forEach\<close> of lines 136 to 139.\<close>

fun forEach_totalDist :: "Coordinate \<Rightarrow> real \<Rightarrow> DeliveryStop list \<Rightarrow> real" where
  "forEach_totalDist current totalDist [] = totalDist"
| "forEach_totalDist current totalDist (stop # rest) =
     forEach_totalDist (coords stop)
       (totalDist + calculateDistance current (coords stop) * 111) rest"

text \<open>
  \<^verbatim>\<open>routeStats\<close>. The test \<^verbatim>\<open>if (lastStop.estimatedTime)\<close> holds for a present,
  non-empty string. No statement of the \<^verbatim>\<open>try\<close> block throws (\<open>parseTime\<close>
  returns \<^verbatim>\<open>NaN\<close> instead), so the \<^verbatim>\<open>catch\<close> branch of line 158 is never
  entered and has no counterpart here. The placeholder for a duration that is not
  available is the string of three dots.
\<close>

definition routeStats :: "AppState \<Rightarrow> Date \<Rightarrow> RouteStats" where
  "routeStats s now =
     (if length (stops s) = 0 then \<lparr>distance = 0, duration = ''0h 0m''\<rparr>
      else
        (let totalDist = forEach_totalDist (depotLocation s) 0 (stops s);
             lastStop = stops s ! (length (stops s) - 1)
         in case estimatedTime lastStop of
              Some timeStr \<Rightarrow>
                if timeStr \<noteq> [] then
                  (let startTimeStr = (if useSystemTime s \<and> lastUpdated s \<noteq> None
                                       then getCurrentTimeFormatted now
                                       else DEFAULT_DEPOT_START_TIME);
                       startMinutes = parseTime startTimeStr;
                       endMinutes = parseTime timeStr;
                       diff = js_sub endMinutes startMinutes;
                       h = js_floor_div60 diff;
                       m = js_rem60 diff
                   in \<lparr>distance = totalDist,
                       duration = toString_js h @ ''h '' @ toString_js m @ ''m''\<rparr>)
                else \<lparr>distance = totalDist, duration = ''...''\<rparr>
            | None \<Rightarrow> \<lparr>distance = totalDist, duration = ''...''\<rparr>))"

lemmas routeStats_eval =
  routeStats_def Let_def DEFAULT_DEPOT_START_TIME_def parseTime_def Number_js_def
  trim_js_def is_space_def is_digit_def digits10_def js_add_def js_sub_def js_mul_def
  js_lt_def js_strict_eq_def js_floor_div60_def js_rem60_def toString_js_def
  toString_nat.simps

text \<open>
  C7, as stated, fails on the code: for the empty sequence the duration is the numeric
  text for zero hours and zero minutes, not the placeholder.
\<close>

theorem routeStats_empty_counterexample:
  "stops state0 = []
   \<and> duration (routeStats state0 nine) = ''0h 0m''
   \<and> duration (routeStats state0 nine) \<noteq> ''...''"
  by (simp add: routeStats_def state0_def)

text \<open>
  C7, amended. Applied to an empty sequence, the statistics are the total distance
  zero and the duration text "0h 0m".
\<close>

theorem routeStats_empty:
  "routeStats (s\<lparr>stops := []\<rparr>) now = \<lparr>distance = 0, duration = ''0h 0m''\<rparr>"
  by (simp add: routeStats_def)

text \<open>
  C8. The code does not report an unparseable time as unavailable. The estimated time
  "~10:00 AM" has the shape the estimator's own fallback produces (the service's
  \<^verbatim>\<open>catch\<close> branch builds \<^verbatim>\<open>`~${10 + ...}:${...} AM`\<close>); \<^verbatim>\<open>Number('~10')\<close>
  is \<^verbatim>\<open>NaN\<close> and the duration text is "NaNh NaNm". The time "25:99 XM" is no
  12-hour clock time either and yields the numeric text "17h 39m".
\<close>

theorem routeStats_unparseable_time:
  "duration (routeStats
       (state0\<lparr>stops := [(mkStop ''A'' Low 0 1)\<lparr>estimatedTime := Some ''~10:00 AM''\<rparr>]\<rparr>) nine)
     = ''NaNh NaNm''
   \<and> duration (routeStats
       (state0\<lparr>stops := [(mkStop ''A'' Low 0 1)\<lparr>estimatedTime := Some ''25:99 XM''\<rparr>]\<rparr>) nine)
     = ''17h 39m''"
proof -
  have a: "duration (routeStats
       (state0\<lparr>stops := [(mkStop ''A'' Low 0 1)\<lparr>estimatedTime := Some ''~10:00 AM''\<rparr>]\<rparr>) nine)
     = ''NaNh NaNm''"
    by (simp add: routeStats_eval state0_def mkStop_def)
  have b: "duration (routeStats
       (state0\<lparr>stops := [(mkStop ''A'' Low 0 1)\<lparr>estimatedTime := Some ''25:99 XM''\<rparr>]\<rparr>) nine)
     = ''17h 39m''"
    by (simp add: routeStats_eval state0_def mkStop_def)
  from a b show ?thesis by simp
qed

section \<open>The input array of \<open>optimizeRoute\<close> (src/utils/optimizer.ts, lines 11 to 16)\<close>

text \<open>
  Arrays are mutable objects: \<^verbatim>\<open>splice\<close> and \<^verbatim>\<open>push\<close> change the array they are
  called on, and whoever holds a reference to it sees the change. To state what happens
  to the caller's array, the arrays live in a store, a variable of array type holds a
  reference, and a new array gets the next free reference. The stops themselves are
  values: the function never assigns to a field of a stop.
\<close>

type_synonym ref = nat

record Store =
  arrays :: "ref \<Rightarrow> DeliveryStop list option"
  fresh :: ref

definition deref :: "Store \<Rightarrow> ref \<Rightarrow> DeliveryStop list" where
  "deref h r = (case arrays h r of Some xs \<Rightarrow> xs | None \<Rightarrow> [])"

text \<open>An array literal or a spread \<^verbatim>\<open>[...xs]\<close>: a new array with the given elements.\<close>

definition newArray :: "Store \<Rightarrow> DeliveryStop list \<Rightarrow> ref \<times> Store" where
  "newArray h xs = (fresh h, h\<lparr>arrays := (arrays h)(fresh h \<mapsto> xs), fresh := Suc (fresh h)\<rparr>)"

text \<open>A write to the array behind a reference.\<close>

definition assign :: "Store \<Rightarrow> ref \<Rightarrow> DeliveryStop list \<Rightarrow> Store" where
  "assign h r xs = h\<lparr>arrays := (arrays h)(r \<mapsto> xs)\<rparr>"

text \<open>
  The \<^verbatim>\<open>while\<close> loop on the store: \<^verbatim>\<open>unvisited.splice(nearestIndex, 1)\<close> writes
  the array behind \<open>unvisited\<close>, \<^verbatim>\<open>route.push(nextStop)\<close> the one behind
  \<open>route\<close>. The scan of the inner loop only reads. Were both references the same
  array the loop would not end, so the loop is a partial function, and that it returns
  is part of what is proved below.
\<close>

partial_function (option) whileLoop_store ::
  "Coordinate \<Rightarrow> ref \<Rightarrow> ref \<Rightarrow> Store \<Rightarrow> Store option" where
  "whileLoop_store currentPos unvisited route h =
     (if length (deref h unvisited) > 0 then
        (let nearestIndex = forLoop currentPos (deref h unvisited) 1 0
                              (calculateDistance currentPos (coords (deref h unvisited ! 0)));
             nextStop = deref h unvisited ! nearestIndex;
             h1 = assign h unvisited (splice1 nearestIndex (deref h unvisited));
             h2 = assign h1 route (deref h1 route @ [nextStop])
         in whileLoop_store (coords nextStop) unvisited route h2)
      else Some h)"

text \<open>
  \<^verbatim>\<open>optimizeRoute\<close> on the store: it takes the reference of the caller's array and
  returns the reference of the array it built.
\<close>

definition optimizeRoute_store :: "Coordinate \<Rightarrow> ref \<Rightarrow> Store \<Rightarrow> (ref \<times> Store) option" where
  "optimizeRoute_store start stopsRef h =
     (if length (deref h stopsRef) = 0 then Some (newArray h [])
      else
        (let (unvisited, h1) = newArray h (deref h stopsRef);
             (route, h2) = newArray h1 []
         in case whileLoop_store start unvisited route h2 of
              None \<Rightarrow> None
            | Some h3 \<Rightarrow> Some (route, h3)))"

definition store0 :: Store where
  "store0 = \<lparr>arrays = (\<lambda>r. None)(0 \<mapsto> [mkStop ''C'' Low 0 3, mkStop ''A'' Low 0 1,
                                           mkStop ''B'' Low 0 2]),
             fresh = 1\<rparr>"

lemma deref_assign: "deref (assign h r xs) r' = (if r' = r then xs else deref h r')"
  by (simp add: deref_def assign_def)

lemma whileLoop_store_correct:
  "unvisited \<noteq> route \<Longrightarrow>
   \<exists>h'. whileLoop_store currentPos unvisited route h = Some h'
        \<and> deref h' route = whileLoop currentPos (deref h unvisited) (deref h route)
        \<and> (\<forall>r. r \<noteq> unvisited \<and> r \<noteq> route \<longrightarrow> arrays h' r = arrays h r)
        \<and> fresh h' = fresh h"
proof (induction "length (deref h unvisited)" arbitrary: h currentPos)
  case 0
  then show ?case
    by (subst whileLoop_store.simps, subst whileLoop.simps) simp
next
  case (Suc n)
  define xs where "xs = deref h unvisited"
  define k where "k = forLoop currentPos xs 1 0 (calculateDistance currentPos (coords (xs ! 0)))"
  define h2 where "h2 = assign (assign h unvisited (splice1 k xs)) route (deref h route @ [xs ! k])"
  have pos: "0 < length xs" using Suc.hyps(2) by (auto simp add: xs_def)
  have k: "k < length xs" unfolding k_def using pos by (rule forLoop_less)
  have u2: "deref h2 unvisited = splice1 k xs"
    using Suc.prems by (simp add: h2_def deref_assign)
  have r2: "deref h2 route = deref h route @ [xs ! k]"
    by (simp add: h2_def deref_assign)
  have len: "n = length (deref h2 unvisited)"
    using k Suc.hyps(2) by (simp add: u2 splice1_def xs_def)
  from Suc.hyps(1) [OF len Suc.prems, of "coords (xs ! k)"]
  obtain h' where h': "whileLoop_store (coords (xs ! k)) unvisited route h2 = Some h'"
    "deref h' route = whileLoop (coords (xs ! k)) (deref h2 unvisited) (deref h2 route)"
    "\<forall>r. r \<noteq> unvisited \<and> r \<noteq> route \<longrightarrow> arrays h' r = arrays h2 r"
    "fresh h' = fresh h2"
    by blast
  have step: "whileLoop_store currentPos unvisited route h
                = whileLoop_store (coords (xs ! k)) unvisited route h2"
    using pos Suc.prems
    by (subst whileLoop_store.simps) (simp add: Let_def xs_def k_def h2_def deref_assign)
  have pure: "whileLoop currentPos xs (deref h route)
                = whileLoop (coords (xs ! k)) (splice1 k xs) (deref h route @ [xs ! k])"
    using pos by (subst whileLoop.simps) (simp add: Let_def k_def)
  have frame: "\<forall>r. r \<noteq> unvisited \<and> r \<noteq> route \<longrightarrow> arrays h2 r = arrays h r"
    by (simp add: h2_def assign_def)
  have fr: "fresh h2 = fresh h" by (simp add: h2_def assign_def)
  show ?case
    using h' step pure frame fr u2 r2 by (simp add: xs_def)
qed

text \<open>
  C10. \<open>optimizeRoute\<close> does not change its input. For every origin and every
  allocated input array, the call returns, the caller's array holds the same elements in
  the same order afterwards, as does every other array that existed before the call; the
  result is a different array, and it holds the sequence computed by the function on
  values.
\<close>

theorem optimizeRoute_store_frame:
  assumes "stopsRef < fresh h"
  shows "\<exists>route h'. optimizeRoute_store start stopsRef h = Some (route, h')
           \<and> arrays h' stopsRef = arrays h stopsRef
           \<and> deref h' route = optimizeRoute start (deref h stopsRef)
           \<and> route \<noteq> stopsRef
           \<and> (\<forall>r < fresh h. arrays h' r = arrays h r)"
proof (cases "length (deref h stopsRef) = 0")
  case True
  then show ?thesis using assms
    by (simp add: optimizeRoute_store_def newArray_def optimizeRoute_def deref_def)
next
  case False
  define h1 where "h1 = snd (newArray h (deref h stopsRef))"
  define h2 where "h2 = snd (newArray h1 [])"
  define u where "u = fresh h"
  define rt where "rt = Suc (fresh h)"
  have ne: "u \<noteq> rt" by (simp add: u_def rt_def)
  have du: "deref h2 u = deref h stopsRef"
    by (simp add: h2_def h1_def newArray_def deref_def u_def)
  have dr: "deref h2 rt = []"
    by (simp add: h2_def h1_def newArray_def deref_def rt_def)
  have old: "\<forall>r < fresh h. arrays h2 r = arrays h r"
    by (simp add: h2_def h1_def newArray_def)
  from whileLoop_store_correct [OF ne, of start h2]
  obtain h' where h': "whileLoop_store start u rt h2 = Some h'"
    "deref h' rt = whileLoop start (deref h2 u) (deref h2 rt)"
    "\<forall>r. r \<noteq> u \<and> r \<noteq> rt \<longrightarrow> arrays h' r = arrays h2 r"
    by blast
  have res: "optimizeRoute_store start stopsRef h = Some (rt, h')"
    using False h'(1)
    by (simp add: optimizeRoute_store_def newArray_def Let_def u_def rt_def h2_def h1_def)
  have keep: "\<forall>r < fresh h. arrays h' r = arrays h r"
    using h'(3) old by (simp add: u_def rt_def)
  have out: "deref h' rt = optimizeRoute start (deref h stopsRef)"
    using h'(2) False by (simp add: du dr optimizeRoute_def)
  from res keep out assms show ?thesis
    by (auto simp: rt_def)
qed


theorem optimizeRoute_store_frame_witness:
  "0 < fresh store0
   \<and> (\<exists>route h'. optimizeRoute_store origin 0 store0 = Some (route, h')
         \<and> deref h' 0 = [mkStop ''C'' Low 0 3, mkStop ''A'' Low 0 1, mkStop ''B'' Low 0 2]
         \<and> deref h' route = [mkStop ''A'' Low 0 1, mkStop ''B'' Low 0 2, mkStop ''C'' Low 0 3]
         \<and> route \<noteq> 0)"
proof -
  have f: "0 < fresh store0" by (simp add: store0_def)
  have d: "deref store0 0 = [mkStop ''C'' Low 0 3, mkStop ''A'' Low 0 1, mkStop ''B'' Low 0 2]"
    by (simp add: store0_def deref_def)
  have o: "optimizeRoute origin [mkStop ''C'' Low 0 3, mkStop ''A'' Low 0 1, mkStop ''B'' Low 0 2]
             = [mkStop ''A'' Low 0 1, mkStop ''B'' Low 0 2, mkStop ''C'' Low 0 3]"
    by (simp add: optimizeRoute_eval calculateDistance_same_lat mkStop_def origin_def
        priorityWeight_def)
  from optimizeRoute_store_frame [OF f, of origin]
  obtain route h' where r: "optimizeRoute_store origin 0 store0 = Some (route, h')"
    "arrays h' 0 = arrays store0 0"
    "deref h' route = optimizeRoute origin (deref store0 0)"
    "route \<noteq> 0"
    by blast
  have k: "deref h' 0 = deref store0 0"
    using r(2) by (simp add: deref_def)
  from f r k d o show ?thesis by simp
qed

end
